theory Spec2Isabelle
  imports Complex_Main "HOL-Library.AList"
begin

section \<open>Values shared by the HTTP/3 layer\<close>

text \<open>
  A shallow embedding of \<^verbatim>\<open>mitmproxy/proxy/layers/http/_http3.py\<close>. Python generators
  are modelled by the list of commands they yield together with the way they stop:
  they return, they raise, or they block for ever inside \<^verbatim>\<open>Queue.get()\<close>.
\<close>

type_synonym bytes = string
type_synonym h3_headers = "(bytes \<times> bytes) list"
type_synonym timestamp = real

datatype exn =
    FrameUnexpected
  | AttributeError
  | KeyError
  | AssertionError
  | ValueError string

datatype 'a outcome = Returns 'a | Raises exn | Blocks

subsection \<open>Constants of the collaborating libraries\<close>

definition CLIENT_CLOSED_REQUEST :: int where
  "CLIENT_CLOSED_REQUEST = 499"

definition INTERNAL_SERVER_ERROR :: int where
  "INTERNAL_SERVER_ERROR = 500"

definition H3_GENERAL_PROTOCOL_ERROR :: int where
  "H3_GENERAL_PROTOCOL_ERROR = 257"

definition H3_INTERNAL_ERROR :: int where
  "H3_INTERNAL_ERROR = 258"

definition H3_REQUEST_CANCELLED :: int where
  "H3_REQUEST_CANCELLED = 268"

definition APPLICATION_ERROR :: int where
  "APPLICATION_ERROR = 12"

definition stream_is_client_initiated :: "int \<Rightarrow> bool" where
  "stream_is_client_initiated stream_id = (stream_id mod 2 = 0)"

definition stream_is_unidirectional :: "int \<Rightarrow> bool" where
  "stream_is_unidirectional stream_id = ((stream_id div 2) mod 2 = 1)"

subsection \<open>HTTP events\<close>

record request =
  rq_host :: string
  rq_port :: int
  rq_method :: bytes
  rq_scheme :: bytes
  rq_authority :: bytes
  rq_path :: bytes
  rq_http_version :: bytes
  rq_headers :: h3_headers
  rq_content :: "bytes option"
  rq_trailers :: "h3_headers option"
  rq_timestamp_start :: timestamp
  rq_timestamp_end :: "timestamp option"

record response =
  rs_http_version :: bytes
  rs_status_code :: int
  rs_reason :: bytes
  rs_headers :: h3_headers
  rs_content :: "bytes option"
  rs_trailers :: "h3_headers option"
  rs_timestamp_start :: timestamp
  rs_timestamp_end :: "timestamp option"

datatype http_payload =
    RequestHeaders request bool
  | ResponseHeaders response bool
  | RequestData bytes
  | ResponseData bytes
  | RequestTrailers h3_headers
  | ResponseTrailers h3_headers
  | RequestEndOfMessage
  | ResponseEndOfMessage
  | RequestProtocolError string int
  | ResponseProtocolError string int

text \<open>\<^verbatim>\<open>HttpEvent\<close>: the base class carries \<^verbatim>\<open>stream_id\<close>, the subclasses the payload.\<close>

datatype http_event = HttpEvent (stream_id: int) (payload: http_payload)

definition set_stream_id :: "int \<Rightarrow> http_event \<Rightarrow> http_event" where
  "set_stream_id i ev = HttpEvent i (payload ev)"

subsection \<open>Events of the codec and of the transport\<close>

datatype h3_event =
    DataReceived bytes int bool
  | HeadersReceived h3_headers int bool
  | PushPromiseReceived h3_headers int int
  | WebTransportStreamDataReceived bytes int bool int

fun h3_stream_id :: "h3_event \<Rightarrow> int" where
  "h3_stream_id (DataReceived d i e) = i"
| "h3_stream_id (HeadersReceived h i e) = i"
| "h3_stream_id (PushPromiseReceived h p i) = i"
| "h3_stream_id (WebTransportStreamDataReceived d i e s) = i"

datatype event =
    Start
  | Http http_event
  | QuicStreamDataReceived int bytes bool
  | QuicStreamReset int int
  | ConnectionClosed

subsection \<open>Commands\<close>

datatype log_message =
    RecvdData int bytes bool
  | SawH3Event h3_event
  | IgnoredH3Event h3_event

datatype command =
    OpenQuicStream bool
  | SendQuicStreamData int bytes bool
  | ResetQuicStream int int
  | CloseConnection
  | Log log_message string
  | ReceiveHttp http_event

fun is_instruction :: "command \<Rightarrow> bool" where
  "is_instruction (OpenQuicStream u) = True"
| "is_instruction (SendQuicStreamData i d e) = True"
| "is_instruction (ResetQuicStream i c) = True"
| "is_instruction CloseConnection = True"
| "is_instruction (Log m l) = False"
| "is_instruction (ReceiveHttp ev) = False"

fun is_report :: "command \<Rightarrow> bool" where
  "is_report (ReceiveHttp ev) = True"
| "is_report c = False"

section \<open>State of a connection\<close>

datatype headers_state = INITIAL | AFTER_HEADERS | AFTER_TRAILERS

text \<open>The fields of the codec's \<^verbatim>\<open>H3Stream\<close> that the layer reads or writes.\<close>

record h3_stream =
  h3s_stream_id :: int
  ended :: bool
  headers_recv_state :: headers_state
  headers_send_state :: headers_state

text \<open>
  A value of the codec's per-stream table \<^verbatim>\<open>_stream\<close>: an \<^verbatim>\<open>H3Stream\<close> object, or the
  Python value \<^verbatim>\<open>True\<close> that \<^verbatim>\<open>state_ready\<close> stores there on a stream reset.
\<close>

datatype slot = H3Stream h3_stream | PyTrue

record connection_terminated =
  error_code :: int
  frame_type :: "int option"
  reason_phrase :: string

datatype handler = StateStart | StateReady | StateDone

datatype role = Server | Client

text \<open>
  The object graph of one \<^verbatim>\<open>Http3Connection\<close>, flattened. \<open>h3_conn\<close> is \<open>None\<close>
  until \<^verbatim>\<open>state_start\<close> builds the \<^verbatim>\<open>LayeredH3Connection\<close>; then it holds the private
  state of the codec, \<open>stream_tab\<close> is \<^verbatim>\<open>h3_conn._stream\<close> (a dict, in insertion order),
  \<open>pending_commands\<close> and \<open>available_stream_ids\<close> are the two queues of
  \<^verbatim>\<open>h3_conn._quic\<close>. \<open>conn_error\<close> is the error recorded on \<^verbatim>\<open>self.conn\<close>. The two
  dictionaries belong to \<^verbatim>\<open>Http3Client\<close>.
\<close>

record 'c http3_connection =
  handle_event :: handler
  h3_conn :: "'c option"
  stream_tab :: "(int \<times> slot) list"
  pending_commands :: "command list"
  available_stream_ids :: "int list"
  conn_error :: "connection_terminated option"
  event_to_quic :: "int \<rightharpoonup> int"
  quic_to_event :: "int \<rightharpoonup> int"

subsection \<open>Generators\<close>

text \<open>
  A generator run to its end: the commands it yielded, the state it left, and how it
  stopped.
\<close>

type_synonym ('c, 'a) gen =
  "'c http3_connection \<Rightarrow> command list \<times> 'c http3_connection \<times> 'a outcome"

definition gen_return :: "'a \<Rightarrow> ('c, 'a) gen" where
  "gen_return x s = ([], s, Returns x)"

definition gen_raise :: "exn \<Rightarrow> ('c, 'a) gen" where
  "gen_raise e s = ([], s, Raises e)"

definition gen_yield :: "command \<Rightarrow> ('c, unit) gen" where
  "gen_yield c s = ([c], s, Returns ())"

definition gen_bind :: "('c, 'a) gen \<Rightarrow> ('a \<Rightarrow> ('c, 'b) gen) \<Rightarrow> ('c, 'b) gen" where
  "gen_bind m f s =
     (case m s of
        (out, s', Returns x) \<Rightarrow> (case f x s' of (out', s'', r) \<Rightarrow> (out @ out', s'', r))
      | (out, s', Raises e) \<Rightarrow> (out, s', Raises e)
      | (out, s', Blocks) \<Rightarrow> (out, s', Blocks))"

definition gen_modify :: "('c http3_connection \<Rightarrow> 'c http3_connection) \<Rightarrow> ('c, unit) gen" where
  "gen_modify f s = ([], f s, Returns ())"

subsection \<open>Functions of mitmproxy that the layer imports\<close>

text \<open>
  Modelled from the spec: \<^verbatim>\<open>set_connection_error\<close> and \<^verbatim>\<open>get_connection_error\<close> of
  \<^verbatim>\<open>mitmproxy.proxy.layers.quic\<close>, which record a connection-level error object on the
  connection and read it back (\<open>None\<close> when nothing was recorded).
\<close>

definition set_connection_error ::
  "connection_terminated \<Rightarrow> 'c http3_connection \<Rightarrow> 'c http3_connection" where
  "set_connection_error ct s = s\<lparr>conn_error := Some ct\<rparr>"

definition get_connection_error :: "'c http3_connection \<Rightarrow> connection_terminated option" where
  "get_connection_error s = conn_error s"

section \<open>MockQuic\<close>

text \<open>
  \<^verbatim>\<open>queue.Queue\<close> defines neither \<^verbatim>\<open>__bool__\<close> nor \<^verbatim>\<open>__len__\<close>, so a queue object is
  true whatever it holds; \<^verbatim>\<open>Queue.get()\<close> waits for an item when the queue is empty.
\<close>

definition queue_bool :: "'a list \<Rightarrow> bool" where
  "queue_bool q = True"

definition queue_get :: "'a list \<Rightarrow> ('a \<times> 'a list) outcome" where
  "queue_get q = (case q of [] \<Rightarrow> Blocks | x # q' \<Rightarrow> Returns (x, q'))"

definition quic_close ::
  "int \<Rightarrow> int option \<Rightarrow> string \<Rightarrow> 'c http3_connection \<Rightarrow> 'c http3_connection" where
  "quic_close ec ft reason s =
     (let s1 = set_connection_error
                 \<lparr>error_code = ec, frame_type = ft, reason_phrase = reason\<rparr> s
      in s1\<lparr>pending_commands := pending_commands s1 @ [CloseConnection]\<rparr>)"

definition get_next_available_stream_id ::
  "bool \<Rightarrow> 'c http3_connection \<Rightarrow> 'c http3_connection \<times> int outcome" where
  "get_next_available_stream_id is_unidirectional s =
     (case queue_get (available_stream_ids s) of
        Blocks \<Rightarrow> (s, Blocks)
      | Raises e \<Rightarrow> (s, Raises e)
      | Returns (sid, rest) \<Rightarrow>
          (s\<lparr>available_stream_ids := rest\<rparr>,
           if is_unidirectional = stream_is_unidirectional sid then Returns sid
           else Raises AssertionError))"

definition quic_send_stream_data ::
  "int \<Rightarrow> bytes \<Rightarrow> bool \<Rightarrow> 'c http3_connection \<Rightarrow> 'c http3_connection" where
  "quic_send_stream_data sid data end_stream s =
     s\<lparr>pending_commands := pending_commands s @ [SendQuicStreamData sid data end_stream]\<rparr>"

text \<open>The calls a codec method makes on its \<^verbatim>\<open>_quic\<close> object while it runs.\<close>

datatype quic_call =
    QuicClose int "int option" string
  | QuicSendStreamData int bytes bool

fun run_quic_call :: "quic_call \<Rightarrow> 'c http3_connection \<Rightarrow> 'c http3_connection" where
  "run_quic_call (QuicClose ec ft reason) s = quic_close ec ft reason s"
| "run_quic_call (QuicSendStreamData sid data e) s = quic_send_stream_data sid data e s"

fun run_quic_calls :: "quic_call list \<Rightarrow> 'c http3_connection \<Rightarrow> 'c http3_connection" where
  "run_quic_calls [] s = s"
| "run_quic_calls (c # cs) s = run_quic_calls cs (run_quic_call c s)"

section \<open>Collaborators that are not part of this file\<close>

text \<open>
  The codec (the \<^verbatim>\<open>H3Connection\<close> base class of aioquic), the header helpers of the
  HTTP/2 layer, \<^verbatim>\<open>format_error\<close>, \<^verbatim>\<open>error_code_to_str\<close>, the version string, the clock
  and the default \<^verbatim>\<open>code\<close> of the two protocol error classes are parameters of the
  model. A codec method gets the per-stream table and the codec's private state; it
  gives back both, the calls it made on \<^verbatim>\<open>_quic\<close>, and what it raised or returned.
  The constructor asks \<^verbatim>\<open>_quic\<close> for the stream ids listed in \<open>h3_init_streams\<close> (one
  \<^verbatim>\<open>is_unidirectional\<close> flag each) and builds its state from them.
\<close>

type_synonym 'c h3_core = "(int \<times> slot) list \<times> 'c"

record 'c env =
  h3_init_streams :: "bool list"
  h3_init :: "int list \<Rightarrow> 'c h3_core \<times> quic_call list"
  h3_send_data :: "'c h3_core \<Rightarrow> int \<Rightarrow> bytes \<Rightarrow> bool \<Rightarrow> 'c h3_core \<times> quic_call list \<times> exn option"
  h3_send_headers ::
    "'c h3_core \<Rightarrow> int \<Rightarrow> h3_headers \<Rightarrow> bool \<Rightarrow> 'c h3_core \<times> quic_call list \<times> exn option"
  h3_handle_event ::
    "'c h3_core \<Rightarrow> int \<Rightarrow> bytes \<Rightarrow> bool \<Rightarrow> 'c h3_core \<times> quic_call list \<times> (exn + h3_event list)"
  format_h2_request_headers :: "http_event \<Rightarrow> command list \<times> h3_headers"
  format_h2_response_headers :: "http_event \<Rightarrow> command list \<times> h3_headers"
  parse_h2_request_headers ::
    "h3_headers \<Rightarrow> string + (string \<times> int \<times> bytes \<times> bytes \<times> bytes \<times> bytes \<times> h3_headers)"
  parse_h2_response_headers :: "h3_headers \<Rightarrow> string + (int \<times> h3_headers)"
  format_error :: "int \<Rightarrow> string \<Rightarrow> bytes"
  error_code_to_str :: "int \<Rightarrow> string"
  MITMPROXY :: string
  time_time :: timestamp
  RequestProtocolError_code :: int
  ResponseProtocolError_code :: int

section \<open>LayeredH3Connection\<close>

definition send_data :: "'c env \<Rightarrow> int \<Rightarrow> bytes \<Rightarrow> bool \<Rightarrow> ('c, unit) gen" where
  "send_data env sid data end_stream s =
     (case h3_conn s of
        None \<Rightarrow> ([], s, Raises AttributeError)
      | Some c \<Rightarrow>
          (case h3_send_data env (stream_tab s, c) sid data end_stream of
             ((tab', c'), calls, ex) \<Rightarrow>
               ([], run_quic_calls calls (s\<lparr>stream_tab := tab', h3_conn := Some c'\<rparr>),
                case ex of None \<Rightarrow> Returns () | Some e \<Rightarrow> Raises e)))"

definition send_headers :: "'c env \<Rightarrow> int \<Rightarrow> h3_headers \<Rightarrow> bool \<Rightarrow> ('c, unit) gen" where
  "send_headers env sid headers end_stream s =
     (case h3_conn s of
        None \<Rightarrow> ([], s, Raises AttributeError)
      | Some c \<Rightarrow>
          (case h3_send_headers env (stream_tab s, c) sid headers end_stream of
             ((tab', c'), calls, ex) \<Rightarrow>
               ([], run_quic_calls calls (s\<lparr>stream_tab := tab', h3_conn := Some c'\<rparr>),
                case ex of None \<Rightarrow> Returns () | Some e \<Rightarrow> Raises e)))"

definition h3_handle :: "'c env \<Rightarrow> int \<Rightarrow> bytes \<Rightarrow> bool \<Rightarrow> ('c, h3_event list) gen" where
  "h3_handle env sid data end_stream s =
     (case h3_conn s of
        None \<Rightarrow> ([], s, Raises AttributeError)
      | Some c \<Rightarrow>
          (case h3_handle_event env (stream_tab s, c) sid data end_stream of
             ((tab', c'), calls, res) \<Rightarrow>
               ([], run_quic_calls calls (s\<lparr>stream_tab := tab', h3_conn := Some c'\<rparr>),
                case res of Inl e \<Rightarrow> Raises e | Inr evs \<Rightarrow> Returns evs)))"

text \<open>
  \<^verbatim>\<open>transmit\<close>: \<^verbatim>\<open>while self._quic.pending_commands: yield self._quic.pending_commands.get()\<close>.
  The loop test is the truth value of the queue object; \<^verbatim>\<open>get()\<close> on the empty queue
  never comes back.
\<close>

fun transmit_loop :: "command list \<Rightarrow> command list \<times> command list \<times> unit outcome" where
  "transmit_loop [] =
     (if queue_bool ([] :: command list) then ([], [], Blocks) else ([], [], Returns ()))"
| "transmit_loop (c # q) =
     (if queue_bool (c # q)
      then (case transmit_loop q of (out, q', r) \<Rightarrow> (c # out, q', r))
      else ([], c # q, Returns ()))"

definition transmit :: "('c, unit) gen" where
  "transmit s =
     (case transmit_loop (pending_commands s) of
        (out, q', r) \<Rightarrow> (out, s\<lparr>pending_commands := q'\<rparr>, r))"

section \<open>The two roles\<close>

fun ReceiveData :: "role \<Rightarrow> bytes \<Rightarrow> http_payload" where
  "ReceiveData Server d = RequestData d"
| "ReceiveData Client d = ResponseData d"

fun ReceiveEndOfMessage :: "role \<Rightarrow> http_payload" where
  "ReceiveEndOfMessage Server = RequestEndOfMessage"
| "ReceiveEndOfMessage Client = ResponseEndOfMessage"

fun ReceiveProtocolError :: "role \<Rightarrow> string \<Rightarrow> int \<Rightarrow> http_payload" where
  "ReceiveProtocolError Server m c = RequestProtocolError m c"
| "ReceiveProtocolError Client m c = ResponseProtocolError m c"

fun ReceiveTrailers :: "role \<Rightarrow> h3_headers \<Rightarrow> http_payload" where
  "ReceiveTrailers Server t = RequestTrailers t"
| "ReceiveTrailers Client t = ResponseTrailers t"

fun ReceiveProtocolError_code :: "'c env \<Rightarrow> role \<Rightarrow> int" where
  "ReceiveProtocolError_code env Server = RequestProtocolError_code env"
| "ReceiveProtocolError_code env Client = ResponseProtocolError_code env"

definition postprocess_outgoing_event ::
  "role \<Rightarrow> 'c http3_connection \<Rightarrow> http_event \<Rightarrow> http_event outcome" where
  "postprocess_outgoing_event r s ev =
     (case r of
        Server \<Rightarrow> Returns ev
      | Client \<Rightarrow>
          (case quic_to_event s (stream_id ev) of
             None \<Rightarrow> Raises KeyError
           | Some l \<Rightarrow> Returns (set_stream_id l ev)))"

text \<open>
  \<^verbatim>\<open>preprocess_incoming_event\<close>; \<open>reply\<close> is the stream id with which the driver answers
  the \<^verbatim>\<open>OpenQuicStream\<close> command.
\<close>

definition preprocess_incoming_event :: "role \<Rightarrow> int \<Rightarrow> http_event \<Rightarrow> ('c, http_event) gen" where
  "preprocess_incoming_event r reply ev s =
     (case r of
        Server \<Rightarrow> ([], s, Returns ev)
      | Client \<Rightarrow>
          (case event_to_quic s (stream_id ev) of
             Some q \<Rightarrow> ([], s, Returns (set_stream_id q ev))
           | None \<Rightarrow>
               ([OpenQuicStream False],
                s\<lparr>event_to_quic := (event_to_quic s)(stream_id ev \<mapsto> reply),
                  quic_to_event := (quic_to_event s)(reply \<mapsto> stream_id ev)\<rparr>,
                Returns (set_stream_id reply ev))))"

text \<open>\<^verbatim>\<open>yield ReceiveHttp(self.postprocess_outgoing_event(ev))\<close>\<close>

definition receive_http :: "role \<Rightarrow> http_event \<Rightarrow> ('c, unit) gen" where
  "receive_http r ev s =
     (case postprocess_outgoing_event r s ev of
        Returns ev' \<Rightarrow> ([ReceiveHttp ev'], s, Returns ())
      | Raises e \<Rightarrow> ([], s, Raises e)
      | Blocks \<Rightarrow> ([], s, Blocks))"

text \<open>\<^verbatim>\<open>b"%d" % code\<close>\<close>

fun decimal :: "nat \<Rightarrow> string" where
  "decimal n =
     (if n < 10 then [''0123456789'' ! n]
      else decimal (n div 10) @ [''0123456789'' ! (n mod 10)])"

definition bytes_of_int :: "int \<Rightarrow> bytes" where
  "bytes_of_int i = (if i < 0 then CHR ''-'' # decimal (nat (- i)) else decimal (nat i))"

text \<open>
  \<^verbatim>\<open>Http3Server.send_protocol_error\<close>.
\<close>

definition server_send_protocol_error :: "'c env \<Rightarrow> http_event \<Rightarrow> ('c, unit) gen" where
  "server_send_protocol_error env ev s =
     (case h3_conn s of
        None \<Rightarrow> ([], s, Raises AssertionError)
      | Some c \<Rightarrow>
          (case payload ev of
             ResponseProtocolError message code0 \<Rightarrow>
               (let code = (if code0 \<noteq> CLIENT_CLOSED_REQUEST then INTERNAL_SERVER_ERROR
                            else code0)
                in gen_bind
                     (send_headers env (stream_id ev)
                        [('':status'', bytes_of_int code),
                         (''server'', MITMPROXY env),
                         (''content-type'', ''text/html'')]
                        False)
                     (\<lambda>_. send_data env (stream_id ev) (format_error env code message) True)
                     s)
           | _ \<Rightarrow> ([], s, Raises AssertionError)))"

text \<open>
  The body of \<^verbatim>\<open>Http3Client.send_protocol_error\<close>. It contains a \<^verbatim>\<open>yield\<close>, so the
  method is a generator function: the body runs only when the generator is iterated.
\<close>

definition client_send_protocol_error_body :: "http_event \<Rightarrow> ('c, unit) gen" where
  "client_send_protocol_error_body ev s =
     (case payload ev of
        RequestProtocolError message code0 \<Rightarrow>
          (let code = (if code0 \<noteq> H3_REQUEST_CANCELLED then H3_INTERNAL_ERROR else code0)
           in gen_yield (ResetQuicStream (stream_id ev) code) s)
      | _ \<Rightarrow> ([], s, Raises AssertionError))"

text \<open>
  \<^verbatim>\<open>self.send_protocol_error(event)\<close> as \<^verbatim>\<open>state_ready\<close> calls it: a plain call, whose
  result is dropped. For the client the call only builds the generator object.
\<close>

definition send_protocol_error :: "role \<Rightarrow> 'c env \<Rightarrow> http_event \<Rightarrow> ('c, unit) gen" where
  "send_protocol_error r env ev =
     (case r of
        Server \<Rightarrow> server_send_protocol_error env ev
      | Client \<Rightarrow> gen_return ())"

section \<open>Http3Connection\<close>

subsection \<open>Outgoing HTTP events\<close>

text \<open>
  \<^verbatim>\<open>self.h3_conn._stream[event.stream_id].headers_send_state = AFTER_TRAILERS\<close>
\<close>

definition force_after_trailers :: "int \<Rightarrow> ('c, unit) gen" where
  "force_after_trailers sid s =
     (case map_of (stream_tab s) sid of
        None \<Rightarrow> ([], s, Raises KeyError)
      | Some PyTrue \<Rightarrow> ([], s, Raises AttributeError)
      | Some (H3Stream st) \<Rightarrow>
          ([],
           s\<lparr>stream_tab :=
               AList.update sid (H3Stream (st\<lparr>headers_send_state := AFTER_TRAILERS\<rparr>))
                 (stream_tab s)\<rparr>,
           Returns ()))"

definition send_headers_event ::
  "'c env \<Rightarrow> int \<Rightarrow> command list \<times> h3_headers \<Rightarrow> bool \<Rightarrow> ('c, unit) gen" where
  "send_headers_event env sid formatted end_stream =
     gen_bind (\<lambda>s. (fst formatted, s, Returns ()))
       (\<lambda>_. gen_bind (send_headers env sid (snd formatted) end_stream)
          (\<lambda>_. if end_stream then force_after_trailers sid else gen_return ()))"

text \<open>The body of the \<^verbatim>\<open>try\<close> block of \<^verbatim>\<open>state_ready\<close>.\<close>

definition send_http_event :: "role \<Rightarrow> 'c env \<Rightarrow> http_event \<Rightarrow> ('c, unit) gen" where
  "send_http_event r env ev =
     (case payload ev of
        RequestData d \<Rightarrow> send_data env (stream_id ev) d False
      | ResponseData d \<Rightarrow> send_data env (stream_id ev) d False
      | RequestHeaders rq es \<Rightarrow>
          send_headers_event env (stream_id ev) (format_h2_request_headers env ev) es
      | ResponseHeaders rs es \<Rightarrow>
          send_headers_event env (stream_id ev) (format_h2_response_headers env ev) es
      | RequestTrailers t \<Rightarrow> send_headers env (stream_id ev) t True
      | ResponseTrailers t \<Rightarrow> send_headers env (stream_id ev) t True
      | RequestEndOfMessage \<Rightarrow> send_data env (stream_id ev) [] True
      | ResponseEndOfMessage \<Rightarrow> send_data env (stream_id ev) [] True
      | RequestProtocolError m c \<Rightarrow> send_protocol_error r env ev
      | ResponseProtocolError m c \<Rightarrow> send_protocol_error r env ev)"

text \<open>
  \<^verbatim>\<open>try: ... except H3FrameUnexpected: pass else: yield from self.h3_conn.transmit()\<close>
\<close>

definition try_send :: "('c, unit) gen \<Rightarrow> ('c, unit) gen" where
  "try_send body s =
     (case body s of
        (out, s', Returns u) \<Rightarrow>
          (case transmit s' of (out', s'', r) \<Rightarrow> (out @ out', s'', r))
      | (out, s', Raises e) \<Rightarrow>
          (if e = FrameUnexpected then (out, s', Returns ()) else (out, s', Raises e))
      | (out, s', Blocks) \<Rightarrow> (out, s', Blocks))"

definition http_event_branch :: "role \<Rightarrow> 'c env \<Rightarrow> int \<Rightarrow> http_event \<Rightarrow> ('c, unit) gen" where
  "http_event_branch r env reply ev =
     gen_bind (preprocess_incoming_event r reply ev)
       (\<lambda>ev'. try_send (send_http_event r env ev'))"

subsection \<open>Stream reset\<close>

definition stream_reset_branch :: "role \<Rightarrow> 'c env \<Rightarrow> int \<Rightarrow> int \<Rightarrow> ('c, unit) gen" where
  "stream_reset_branch r env sid ec s =
     (if stream_is_client_initiated sid then
        (case map_of (stream_tab s) sid of
           None \<Rightarrow> ([], s, Returns ())
         | Some PyTrue \<Rightarrow> ([], s, Raises AttributeError)
         | Some (H3Stream st) \<Rightarrow>
             (if \<not> ended st then
                (let s1 = s\<lparr>stream_tab := AList.update sid PyTrue (stream_tab s)\<rparr>;
                     code = (if ec = H3_REQUEST_CANCELLED then CLIENT_CLOSED_REQUEST
                             else ReceiveProtocolError_code env r)
                 in receive_http r
                      (HttpEvent sid
                         (ReceiveProtocolError r
                            (''stream reset by client ('' @ error_code_to_str env ec @ '')'')
                            code))
                      s1)
              else ([], s, Returns ())))
      else ([], s, Returns ()))"

subsection \<open>Data received\<close>

text \<open>\<^verbatim>\<open>Http3Server.parse_headers\<close> and \<^verbatim>\<open>Http3Client.parse_headers\<close>\<close>

fun parse_headers :: "role \<Rightarrow> 'c env \<Rightarrow> h3_headers \<Rightarrow> int \<Rightarrow> bool \<Rightarrow> string + http_event" where
  "parse_headers Server env headers sid stream_ended =
     (case parse_h2_request_headers env headers of
        Inl msg \<Rightarrow> Inl msg
      | Inr (host, port, method, scheme, authority, path, hs) \<Rightarrow>
          Inr (HttpEvent sid
                 (RequestHeaders
                    \<lparr>rq_host = host, rq_port = port, rq_method = method, rq_scheme = scheme,
                     rq_authority = authority, rq_path = path, rq_http_version = ''HTTP/3'',
                     rq_headers = hs, rq_content = None, rq_trailers = None,
                     rq_timestamp_start = time_time env, rq_timestamp_end = None\<rparr>
                    stream_ended)))"
| "parse_headers Client env headers sid stream_ended =
     (case parse_h2_response_headers env headers of
        Inl msg \<Rightarrow> Inl msg
      | Inr (status_code, hs) \<Rightarrow>
          Inr (HttpEvent sid
                 (ResponseHeaders
                    \<lparr>rs_http_version = ''HTTP/3'', rs_status_code = status_code,
                     rs_reason = [], rs_headers = hs, rs_content = None, rs_trailers = None,
                     rs_timestamp_start = time_time env, rs_timestamp_end = None\<rparr>
                    stream_ended)))"

definition end_of_message_if :: "role \<Rightarrow> bool \<Rightarrow> int \<Rightarrow> ('c, unit) gen" where
  "end_of_message_if r stream_ended sid =
     (if stream_ended then receive_http r (HttpEvent sid (ReceiveEndOfMessage r))
      else gen_return ())"

definition ignore_h3_event :: "h3_event \<Rightarrow> ('c, unit) gen" where
  "ignore_h3_event e =
     gen_yield
       (Log (IgnoredH3Event e)
          (if stream_is_client_initiated (h3_stream_id e) then ''info'' else ''debug''))"

definition headers_received :: "role \<Rightarrow> 'c env \<Rightarrow> h3_headers \<Rightarrow> int \<Rightarrow> bool \<Rightarrow> ('c, unit) gen" where
  "headers_received r env headers sid stream_ended s =
     (case map_of (stream_tab s) sid of
        None \<Rightarrow> ([], s, Raises KeyError)
      | Some PyTrue \<Rightarrow> ([], s, Raises AttributeError)
      | Some (H3Stream st) \<Rightarrow>
          (if headers_recv_state st = AFTER_TRAILERS
           then receive_http r (HttpEvent sid (ReceiveTrailers r headers)) s
           else
             (case parse_headers r env headers sid stream_ended of
                Inl msg \<Rightarrow>
                  gen_yield CloseConnection
                    (set_connection_error
                       \<lparr>error_code = H3_GENERAL_PROTOCOL_ERROR, frame_type = None,
                        reason_phrase = ''Invalid HTTP/3 request headers: '' @ msg\<rparr>
                       s)
              | Inr receive_event \<Rightarrow> receive_http r receive_event s)))"

text \<open>One turn of the loop \<^verbatim>\<open>for h3_event in self.h3_conn.handle_event(e)\<close>.\<close>

definition process_h3_event :: "role \<Rightarrow> 'c env \<Rightarrow> h3_event \<Rightarrow> ('c, unit) gen" where
  "process_h3_event r env e =
     gen_bind (gen_yield (Log (SawH3Event e) ''info''))
       (\<lambda>_. case e of
               DataReceived data sid stream_ended \<Rightarrow>
                 (if stream_is_client_initiated sid
                  then gen_bind (receive_http r (HttpEvent sid (ReceiveData r data)))
                         (\<lambda>_. end_of_message_if r stream_ended sid)
                  else ignore_h3_event e)
             | HeadersReceived headers sid stream_ended \<Rightarrow>
                 (if stream_is_client_initiated sid
                  then gen_bind (headers_received r env headers sid stream_ended)
                         (\<lambda>_. end_of_message_if r stream_ended sid)
                  else ignore_h3_event e)
             | _ \<Rightarrow> ignore_h3_event e)"

fun process_h3_events :: "role \<Rightarrow> 'c env \<Rightarrow> h3_event list \<Rightarrow> ('c, unit) gen" where
  "process_h3_events r env [] = gen_return ()"
| "process_h3_events r env (e # es) =
     gen_bind (process_h3_event r env e) (\<lambda>_. process_h3_events r env es)"

definition data_received_branch ::
  "role \<Rightarrow> 'c env \<Rightarrow> int \<Rightarrow> bytes \<Rightarrow> bool \<Rightarrow> ('c, unit) gen" where
  "data_received_branch r env sid data end_stream =
     gen_bind (gen_yield (Log (RecvdData sid data end_stream) ''info''))
       (\<lambda>_. gen_bind (h3_handle env sid data end_stream) (process_h3_events r env))"

subsection \<open>Connection closed\<close>

definition close_stream :: "role \<Rightarrow> slot \<Rightarrow> ('c, unit) gen" where
  "close_stream r v s =
     (case v of
        PyTrue \<Rightarrow> ([], s, Raises AttributeError)
      | H3Stream st \<Rightarrow>
          (if stream_is_client_initiated (h3s_stream_id st) \<and> \<not> ended st then
             receive_http r
               (HttpEvent (h3s_stream_id st)
                  (case get_connection_error s of
                     None \<Rightarrow> ReceiveProtocolError r ''Connection closed.'' APPLICATION_ERROR
                   | Some close_event \<Rightarrow>
                       ReceiveProtocolError r (reason_phrase close_event)
                         (error_code close_event)))
               s
           else ([], s, Returns ())))"

fun close_streams :: "role \<Rightarrow> slot list \<Rightarrow> ('c, unit) gen" where
  "close_streams r [] = gen_return ()"
| "close_streams r (v # vs) = gen_bind (close_stream r v) (\<lambda>_. close_streams r vs)"

definition connection_closed_branch :: "role \<Rightarrow> ('c, unit) gen" where
  "connection_closed_branch r s =
     gen_bind (close_streams r (map snd (stream_tab s)))
       (\<lambda>_. gen_modify (\<lambda>s'. s'\<lparr>handle_event := StateDone\<rparr>))
       s"

subsection \<open>The three states\<close>

definition state_done :: "event \<Rightarrow> ('c, unit) gen" where
  "state_done ev s = (case ev of Start \<Rightarrow> ([], s, Raises AssertionError) | _ \<Rightarrow> ([], s, Returns ()))"

definition state_ready :: "role \<Rightarrow> 'c env \<Rightarrow> int \<Rightarrow> event \<Rightarrow> ('c, unit) gen" where
  "state_ready r env reply ev s =
     (case ev of
        Start \<Rightarrow> ([], s, Raises AssertionError)
      | Http e \<Rightarrow>
          (if h3_conn s = None then ([], s, Raises AssertionError)
           else http_event_branch r env reply e s)
      | QuicStreamDataReceived sid data end_stream \<Rightarrow>
          (if h3_conn s = None then ([], s, Raises AssertionError)
           else data_received_branch r env sid data end_stream s)
      | QuicStreamReset sid ec \<Rightarrow>
          (if h3_conn s = None then ([], s, Raises AssertionError)
           else stream_reset_branch r env sid ec s)
      | ConnectionClosed \<Rightarrow>
          (if h3_conn s = None then ([], s, Raises AssertionError)
           else connection_closed_branch r s))"

text \<open>
  \<^verbatim>\<open>LayeredH3Connection(self.conn)\<close>: a fresh \<^verbatim>\<open>MockQuic\<close> with two empty queues, then the
  constructor of the codec.
\<close>

fun take_stream_ids ::
  "bool list \<Rightarrow> 'c http3_connection \<Rightarrow> 'c http3_connection \<times> int list outcome" where
  "take_stream_ids [] s = (s, Returns [])"
| "take_stream_ids (u # us) s =
     (case get_next_available_stream_id u s of
        (s', Returns i) \<Rightarrow>
          (case take_stream_ids us s' of
             (s'', Returns ids) \<Rightarrow> (s'', Returns (i # ids))
           | (s'', Raises e) \<Rightarrow> (s'', Raises e)
           | (s'', Blocks) \<Rightarrow> (s'', Blocks))
      | (s', Raises e) \<Rightarrow> (s', Raises e)
      | (s', Blocks) \<Rightarrow> (s', Blocks))"

definition new_LayeredH3Connection :: "'c env \<Rightarrow> ('c, unit) gen" where
  "new_LayeredH3Connection env s =
     (case take_stream_ids (h3_init_streams env)
             (s\<lparr>pending_commands := [], available_stream_ids := []\<rparr>) of
        (s1, Returns ids) \<Rightarrow>
          (case h3_init env ids of
             ((tab, c), calls) \<Rightarrow>
               ([], run_quic_calls calls (s1\<lparr>stream_tab := tab, h3_conn := Some c\<rparr>),
                Returns ()))
      | (s1, Raises e) \<Rightarrow> ([], s1, Raises e)
      | (s1, Blocks) \<Rightarrow> ([], s1, Blocks))"

text \<open>
  \<^verbatim>\<open>LayeredH3Connection.start\<close>: \<^verbatim>\<open>range(1, 3)\<close> has two elements; \<open>r1\<close> and \<open>r2\<close> are
  the driver's answers.
\<close>

definition start :: "int \<Rightarrow> int \<Rightarrow> ('c, unit) gen" where
  "start r1 r2 s =
     ([OpenQuicStream False, OpenQuicStream False],
      s\<lparr>available_stream_ids := available_stream_ids s @ [r1, r2]\<rparr>,
      Returns ())"

definition state_start :: "'c env \<Rightarrow> int \<Rightarrow> int \<Rightarrow> event \<Rightarrow> ('c, unit) gen" where
  "state_start env r1 r2 ev s =
     (case ev of
        Start \<Rightarrow>
          (if h3_conn s \<noteq> None then ([], s, Raises AssertionError)
           else gen_bind (new_LayeredH3Connection env)
                  (\<lambda>_. gen_bind (gen_modify (\<lambda>s'. s'\<lparr>handle_event := StateReady\<rparr>))
                     (\<lambda>_. start r1 r2))
                  s)
      | _ \<Rightarrow> ([], s, Raises AssertionError))"

text \<open>
  \<^verbatim>\<open>self._handle_event(event)\<close>; the pair holds the driver's answers to the
  \<^verbatim>\<open>OpenQuicStream\<close> commands of this turn.
\<close>

definition handle :: "role \<Rightarrow> 'c env \<Rightarrow> int \<times> int \<Rightarrow> event \<Rightarrow> ('c, unit) gen" where
  "handle r env replies ev s =
     (case handle_event s of
        StateStart \<Rightarrow> state_start env (fst replies) (snd replies) ev s
      | StateReady \<Rightarrow> state_ready r env (fst replies) ev s
      | StateDone \<Rightarrow> state_done ev s)"

text \<open>
  Events delivered one after the other. A handler that raises or blocks ends the run:
  the next event is never handled.
\<close>

fun run_events :: "role \<Rightarrow> 'c env \<Rightarrow> ((int \<times> int) \<times> event) list \<Rightarrow> ('c, unit) gen" where
  "run_events r env [] = gen_return ()"
| "run_events r env (x # xs) =
     gen_bind (handle r env (fst x) (snd x)) (\<lambda>_. run_events r env xs)"

definition init_connection :: "'c http3_connection" where
  "init_connection =
     \<lparr>handle_event = StateStart, h3_conn = None, stream_tab = [], pending_commands = [],
      available_stream_ids = [], conn_error = None, event_to_quic = Map.empty,
      quic_to_event = Map.empty\<rparr>"

text \<open>The reports of a run that concern one logical stream.\<close>

fun reported :: "command \<Rightarrow> http_event option" where
  "reported (ReceiveHttp ev) = Some ev"
| "reported c = None"

fun is_terminal :: "http_payload \<Rightarrow> bool" where
  "is_terminal RequestEndOfMessage = True"
| "is_terminal ResponseEndOfMessage = True"
| "is_terminal (RequestProtocolError m c) = True"
| "is_terminal (ResponseProtocolError m c) = True"
| "is_terminal p = False"

fun is_headers :: "http_payload \<Rightarrow> bool" where
  "is_headers (RequestHeaders rq e) = True"
| "is_headers (ResponseHeaders rs e) = True"
| "is_headers p = False"

definition terminal_reports :: "int \<Rightarrow> command list \<Rightarrow> http_event list" where
  "terminal_reports sid out =
     filter (\<lambda>ev. stream_id ev = sid \<and> is_terminal (payload ev)) (List.map_filter reported out)"

definition headers_reports :: "int \<Rightarrow> command list \<Rightarrow> http_event list" where
  "headers_reports sid out =
     filter (\<lambda>ev. stream_id ev = sid \<and> is_headers (payload ev)) (List.map_filter reported out)"

section \<open>A sample codec\<close>

text \<open>
  An instance of the parameters, used to run the layer on concrete inputs. Its codec
  follows the micro-lifecycle of a stream (headers not sent, headers sent, trailers
  sent) and a toy wire format: a frame is a tag character followed by the payload.
\<close>

definition new_stream :: "int \<Rightarrow> h3_stream" where
  "new_stream sid =
     \<lparr>h3s_stream_id = sid, ended = False, headers_recv_state = INITIAL,
      headers_send_state = INITIAL\<rparr>"

definition get_or_create :: "(int \<times> slot) list \<Rightarrow> int \<Rightarrow> (int \<times> slot) list" where
  "get_or_create tab sid =
     (case map_of tab sid of None \<Rightarrow> tab @ [(sid, H3Stream (new_stream sid))] | Some v \<Rightarrow> tab)"

definition sample_send_data ::
  "unit h3_core \<Rightarrow> int \<Rightarrow> bytes \<Rightarrow> bool \<Rightarrow> unit h3_core \<times> quic_call list \<times> exn option" where
  "sample_send_data core sid data end_stream =
     (let tab = get_or_create (fst core) sid in
      case map_of tab sid of
        Some (H3Stream st) \<Rightarrow>
          (if headers_send_state st \<noteq> AFTER_HEADERS then ((tab, ()), [], Some FrameUnexpected)
           else ((tab, ()), [QuicSendStreamData sid (CHR ''D'' # data) end_stream], None))
      | _ \<Rightarrow> ((tab, ()), [], Some AttributeError))"

definition sample_send_headers ::
  "unit h3_core \<Rightarrow> int \<Rightarrow> h3_headers \<Rightarrow> bool \<Rightarrow> unit h3_core \<times> quic_call list \<times> exn option" where
  "sample_send_headers core sid headers end_stream =
     (let tab = get_or_create (fst core) sid in
      case map_of tab sid of
        Some (H3Stream st) \<Rightarrow>
          (if headers_send_state st = AFTER_TRAILERS then ((tab, ()), [], Some FrameUnexpected)
           else
             ((AList.update sid
                 (H3Stream
                    (st\<lparr>headers_send_state :=
                          (if headers_send_state st = INITIAL then AFTER_HEADERS
                           else AFTER_TRAILERS)\<rparr>))
                 tab, ()),
              [QuicSendStreamData sid
                 (CHR ''H'' # concat (map (\<lambda>kv. fst kv @ '' '' @ snd kv @ '';'') headers))
                 end_stream],
              None))
      | _ \<Rightarrow> ((tab, ()), [], Some AttributeError))"

definition sample_handle_event ::
  "unit h3_core \<Rightarrow> int \<Rightarrow> bytes \<Rightarrow> bool
     \<Rightarrow> unit h3_core \<times> quic_call list \<times> (exn + h3_event list)" where
  "sample_handle_event core sid data end_stream =
     (let tab = get_or_create (fst core) sid in
      case map_of tab sid of
        Some (H3Stream st) \<Rightarrow>
          (case data of
             c # rest \<Rightarrow>
               (if c = CHR ''H'' then
                  ((AList.update sid
                      (H3Stream
                         (st\<lparr>ended := end_stream,
                             headers_recv_state :=
                               (if headers_recv_state st = INITIAL then AFTER_HEADERS
                                else AFTER_TRAILERS)\<rparr>))
                      tab, ()),
                   [], Inr [HeadersReceived [('':path'', rest)] sid end_stream])
                else if c = CHR ''D'' then
                  ((AList.update sid (H3Stream (st\<lparr>ended := end_stream\<rparr>)) tab, ()),
                   [], Inr [DataReceived rest sid end_stream])
                else ((tab, ()), [], Inr [PushPromiseReceived [] 0 sid]))
           | [] \<Rightarrow> ((tab, ()), [], Inr []))
      | _ \<Rightarrow> ((tab, ()), [], Inl AttributeError))"

definition sample_env :: "unit env" where
  "sample_env =
     \<lparr>h3_init_streams = [],
      h3_init = (\<lambda>ids. (([], ()), [])),
      h3_send_data = sample_send_data,
      h3_send_headers = sample_send_headers,
      h3_handle_event = sample_handle_event,
      format_h2_request_headers = (\<lambda>ev. ([], [('':method'', ''GET'')])),
      format_h2_response_headers = (\<lambda>ev. ([], [('':status'', ''200'')])),
      parse_h2_request_headers =
        (\<lambda>hs. case hs of
                 [(k, v)] \<Rightarrow>
                   (if v = [] then Inl ''empty path''
                    else Inr (''example.com'', 443, ''GET'', ''https'', ''example.com'', v, []))
               | _ \<Rightarrow> Inl ''malformed''),
      parse_h2_response_headers =
        (\<lambda>hs. case hs of
                 [(k, v)] \<Rightarrow> (if v = [] then Inl ''empty status'' else Inr (200, []))
               | _ \<Rightarrow> Inl ''malformed''),
      format_error = (\<lambda>code message. bytes_of_int code @ '' '' @ message),
      error_code_to_str = bytes_of_int,
      MITMPROXY = ''mitmproxy'',
      time_time = 0,
      RequestProtocolError_code = 400,
      ResponseProtocolError_code = 502\<rparr>"

text \<open>A connection in the Ready state whose codec knows the given streams.\<close>

definition ready_connection :: "(int \<times> slot) list \<Rightarrow> unit http3_connection" where
  "ready_connection tab =
     \<lparr>handle_event = StateReady, h3_conn = Some (), stream_tab = tab, pending_commands = [],
      available_stream_ids = [], conn_error = None, event_to_quic = Map.empty,
      quic_to_event = Map.empty\<rparr>"

section \<open>Notions used in the statements\<close>

text \<open>The command that \<^verbatim>\<open>MockQuic\<close> buffers for a call of the codec.\<close>

fun quic_call_command :: "quic_call \<Rightarrow> command" where
  "quic_call_command (QuicClose ec ft reason) = CloseConnection"
| "quic_call_command (QuicSendStreamData sid data e) = SendQuicStreamData sid data e"

fun is_log :: "command \<Rightarrow> bool" where
  "is_log (Log m l) = True"
| "is_log c = False"

text \<open>
  The codec method that \<^verbatim>\<open>state_ready\<close> calls for an outgoing Data, Headers, Trailers or
  EndOfMessage intent, with its arguments.
\<close>

definition intent_codec_call ::
  "'c env \<Rightarrow> http_event \<Rightarrow> 'c h3_core \<Rightarrow> 'c h3_core \<times> quic_call list \<times> exn option" where
  "intent_codec_call env ev core =
     (case payload ev of
        RequestData d \<Rightarrow> h3_send_data env core (stream_id ev) d False
      | ResponseData d \<Rightarrow> h3_send_data env core (stream_id ev) d False
      | RequestHeaders rq es \<Rightarrow>
          h3_send_headers env core (stream_id ev) (snd (format_h2_request_headers env ev)) es
      | ResponseHeaders rs es \<Rightarrow>
          h3_send_headers env core (stream_id ev) (snd (format_h2_response_headers env ev)) es
      | RequestTrailers t \<Rightarrow> h3_send_headers env core (stream_id ev) t True
      | ResponseTrailers t \<Rightarrow> h3_send_headers env core (stream_id ev) t True
      | RequestEndOfMessage \<Rightarrow> h3_send_data env core (stream_id ev) [] True
      | ResponseEndOfMessage \<Rightarrow> h3_send_data env core (stream_id ev) [] True
      | RequestProtocolError m c \<Rightarrow> (core, [], None)
      | ResponseProtocolError m c \<Rightarrow> (core, [], None))"

fun is_protocol_error :: "http_payload \<Rightarrow> bool" where
  "is_protocol_error (RequestProtocolError m c) = True"
| "is_protocol_error (ResponseProtocolError m c) = True"
| "is_protocol_error p = False"

text \<open>The two dictionaries of the client are inverse to each other.\<close>

definition maps_inverse :: "'c http3_connection \<Rightarrow> bool" where
  "maps_inverse s =
     (\<forall>l t. (event_to_quic s l = Some t) = (quic_to_event s t = Some l))"

text \<open>The two dictionaries of the client, as one value.\<close>

definition id_maps :: "'c http3_connection \<Rightarrow> (int \<rightharpoonup> int) \<times> (int \<rightharpoonup> int)" where
  "id_maps s = (event_to_quic s, quic_to_event s)"

section \<open>Properties\<close>

subsection \<open>Draining the buffer\<close>

lemma transmit_loop_blocks: "transmit_loop q = (q, [], Blocks)"
  by (induction q) (simp_all add: queue_bool_def)

text \<open>
  C3. Handling an event is finite: draining the buffer after a codec call emits exactly
  the buffered instructions, in order, and then returns.

  The code emits the buffered instructions in order but never returns: the loop test of
  \<^verbatim>\<open>transmit\<close> is the truth value of a \<^verbatim>\<open>queue.Queue\<close> object, which is always true, so
  after the last instruction \<^verbatim>\<open>get()\<close> waits on the empty queue. The second conjunct runs
  the server role on a body chunk for stream 0, whose headers were sent: the data-send
  instruction comes out and the handler blocks.
\<close>

theorem transmit_emits_pending_then_blocks:
  "transmit s = (pending_commands s, s\<lparr>pending_commands := []\<rparr>, Blocks) \<and>
   (case state_ready Server sample_env 0 (Http (HttpEvent 0 (ResponseData ''x'')))
           (ready_connection
              [(0, H3Stream ((new_stream 0)\<lparr>headers_send_state := AFTER_HEADERS\<rparr>))]) of
      (out, s', r) \<Rightarrow> out = [SendQuicStreamData 0 ''Dx'' False] \<and> r = Blocks)"
proof
  show "transmit s = (pending_commands s, s\<lparr>pending_commands := []\<rparr>, Blocks)"
    by (simp add: transmit_def transmit_loop_blocks)
  show "case state_ready Server sample_env 0 (Http (HttpEvent 0 (ResponseData ''x'')))
           (ready_connection
              [(0, H3Stream ((new_stream 0)\<lparr>headers_send_state := AFTER_HEADERS\<rparr>))]) of
      (out, s', r) \<Rightarrow> out = [SendQuicStreamData 0 ''Dx'' False] \<and> r = Blocks"
    by code_simp
qed

subsection \<open>Cancelling a request on the client side\<close>

text \<open>
  C2. An outgoing \<^verbatim>\<open>RequestProtocolError\<close> handled by the client role in the Ready state
  makes the layer emit exactly one reset-stream instruction for the stream, with the
  event's code when it is H3 "request cancelled" and the H3 internal error code
  otherwise.

  The code emits no reset-stream instruction. \<^verbatim>\<open>Http3Client.send_protocol_error\<close> is a
  generator function and \<^verbatim>\<open>state_ready\<close> calls it without iterating the result, so the
  call does nothing; the second conjunct runs the handler on a cancellation of logical
  stream 1: the only command is the \<^verbatim>\<open>OpenQuicStream\<close> of the id mapping, then the handler
  blocks in \<^verbatim>\<open>transmit\<close>.
\<close>

theorem client_protocol_error_emits_no_reset:
  "send_protocol_error Client env ev s = ([], s, Returns ()) \<and>
   (case state_ready Client sample_env 0
           (Http (HttpEvent 1 (RequestProtocolError ''cancelled'' H3_REQUEST_CANCELLED)))
           (ready_connection []) of
      (out, s', r) \<Rightarrow> out = [OpenQuicStream False] \<and> r = Blocks)"
proof
  show "send_protocol_error Client env ev s = ([], s, Returns ())"
    by (simp add: send_protocol_error_def gen_return_def)
  show "case state_ready Client sample_env 0
           (Http (HttpEvent 1 (RequestProtocolError ''cancelled'' H3_REQUEST_CANCELLED)))
           (ready_connection []) of
      (out, s', r) \<Rightarrow> out = [OpenQuicStream False] \<and> r = Blocks"
    by code_simp
qed

subsection \<open>A stream that was reset before\<close>

text \<open>
  C10. A stream-reset event for a stream that is not client-initiated, unknown to the
  codec's table or already marked ended is a complete no-op.

  The layer marks a reset stream by storing \<^verbatim>\<open>True\<close> in the table. A second reset of the
  same stream reads \<^verbatim>\<open>.ended\<close> of that \<^verbatim>\<open>True\<close>: the handler raises \<^verbatim>\<open>AttributeError\<close>
  instead of doing nothing.
\<close>

theorem second_stream_reset_raises:
  "case run_events Server sample_env
          [((0, 0), QuicStreamReset 0 H3_REQUEST_CANCELLED),
           ((0, 0), QuicStreamReset 0 H3_REQUEST_CANCELLED)]
          (ready_connection [(0, H3Stream (new_stream 0))]) of
     (out, s, r) \<Rightarrow>
       out = [ReceiveHttp
                (HttpEvent 0 (RequestProtocolError ''stream reset by client (268)'' 499))] \<and>
       stream_tab s = [(0, PyTrue)] \<and> r = Raises AttributeError"
  by code_simp

text \<open>
  C4. On the first connection-closed event the layer reports one \<^verbatim>\<open>ProtocolError\<close> for
  every client-initiated stream not yet marked ended and moves to Done.

  With stream 0 reset earlier (its table entry is \<^verbatim>\<open>True\<close>) and stream 4 still open, the
  handler raises \<^verbatim>\<open>AttributeError\<close> on \<^verbatim>\<open>stream.stream_id\<close> of the first entry: stream 4
  gets no report and the connection stays in Ready.
\<close>

theorem connection_closed_after_reset_raises:
  "case state_ready Server sample_env 0 ConnectionClosed
          (ready_connection [(0, PyTrue), (4, H3Stream (new_stream 4))]) of
     (out, s, r) \<Rightarrow> out = [] \<and> r = Raises AttributeError \<and> handle_event s = StateReady"
  by code_simp

text \<open>
  C1. Every logical stream that received a Headers report gets exactly one of
  \<^verbatim>\<open>EndOfMessage\<close> and \<^verbatim>\<open>ProtocolError\<close>, even if the transport resets a stream or closes
  the connection.

  Two requests arrive on streams 0 and 4, the peer resets stream 0, then the connection
  closes. Stream 0 gets its \<^verbatim>\<open>ProtocolError\<close>; the close handler raises on the \<^verbatim>\<open>True\<close>
  stored for stream 0, so stream 4, which got a Headers report, gets no terminal report,
  and the connection never reaches Done.
\<close>

theorem open_stream_left_without_terminal_report:
  "case run_events Server sample_env
          [((2, 6), Start),
           ((0, 0), QuicStreamDataReceived 0 ''H/a'' False),
           ((0, 0), QuicStreamDataReceived 4 ''H/b'' False),
           ((0, 0), QuicStreamReset 0 H3_REQUEST_CANCELLED),
           ((0, 0), ConnectionClosed)]
          init_connection of
     (out, s, r) \<Rightarrow>
       length (headers_reports 4 out) = 1 \<and> terminal_reports 4 out = [] \<and>
       length (terminal_reports 0 out) = 1 \<and>
       r = Raises AttributeError \<and> handle_event s = StateReady"
  by code_simp

subsection \<open>Stream reset by the peer\<close>

text \<open>
  C5. A stream-reset event for a client-initiated stream that the codec knows and that is
  not marked ended: the layer marks the stream (it stores \<^verbatim>\<open>True\<close> in the codec's table)
  and reports exactly one \<^verbatim>\<open>ProtocolError\<close>. Its message is
  \<^verbatim>\<open>stream reset by client (<code>)\<close>; its code is 499 when the reset carries H3
  "request cancelled" and the default code of the role's \<^verbatim>\<open>ReceiveProtocolError\<close>
  otherwise. \<open>l\<close> is the id the report carries: the transport id for the server, the
  logical id mapped to it for the client.
\<close>

theorem stream_reset_reports_protocol_error:
  assumes ready: "h3_conn s \<noteq> None"
    and client: "stream_is_client_initiated sid"
    and known: "map_of (stream_tab s) sid = Some (H3Stream st)"
    and open_: "\<not> ended st"
    and logical: "r = Server \<and> l = sid \<or> r = Client \<and> quic_to_event s sid = Some l"
  shows "state_ready r env reply (QuicStreamReset sid ec) s =
           ([ReceiveHttp
               (HttpEvent l
                  (ReceiveProtocolError r
                     (''stream reset by client ('' @ error_code_to_str env ec @ '')'')
                     (if ec = H3_REQUEST_CANCELLED then 499
                      else ReceiveProtocolError_code env r)))],
            s\<lparr>stream_tab := AList.update sid PyTrue (stream_tab s)\<rparr>,
            Returns ())"
  using assms
  by (auto simp: state_ready_def stream_reset_branch_def receive_http_def
      postprocess_outgoing_event_def set_stream_id_def CLIENT_CLOSED_REQUEST_def Let_def)

theorem stream_reset_reports_protocol_error_witness:
  "stream_is_client_initiated 4 \<and>
   state_ready Server sample_env 0 (QuicStreamReset 4 H3_REQUEST_CANCELLED)
       (ready_connection [(4, H3Stream (new_stream 4))]) =
     ([ReceiveHttp (HttpEvent 4 (RequestProtocolError ''stream reset by client (268)'' 499))],
      ready_connection [(4, PyTrue)], Returns ()) \<and>
   state_ready Client sample_env 0 (QuicStreamReset 4 77)
       ((ready_connection [(4, H3Stream (new_stream 4))])\<lparr>quic_to_event := [4 \<mapsto> 1]\<rparr>) =
     ([ReceiveHttp (HttpEvent 1 (ResponseProtocolError ''stream reset by client (77)'' 502))],
      (ready_connection [(4, PyTrue)])\<lparr>quic_to_event := [4 \<mapsto> 1]\<rparr>, Returns ())"
proof -
  have c: "stream_is_client_initiated 4"
    by (simp add: stream_is_client_initiated_def)
  have e: "\<not> ended (new_stream 4)"
    by (simp add: new_stream_def)
  have s1: "state_ready Server sample_env 0 (QuicStreamReset 4 H3_REQUEST_CANCELLED)
       (ready_connection [(4, H3Stream (new_stream 4))]) =
     ([ReceiveHttp (HttpEvent 4 (RequestProtocolError ''stream reset by client (268)'' 499))],
      ready_connection [(4, PyTrue)], Returns ())"
    using stream_reset_reports_protocol_error
      [of "ready_connection [(4, H3Stream (new_stream 4))]" 4 "new_stream 4" Server 4
          sample_env 0 H3_REQUEST_CANCELLED, OF _ c _ e]
    by (simp add: ready_connection_def sample_env_def H3_REQUEST_CANCELLED_def
        bytes_of_int_def)
  have s2: "state_ready Client sample_env 0 (QuicStreamReset 4 77)
       ((ready_connection [(4, H3Stream (new_stream 4))])\<lparr>quic_to_event := [4 \<mapsto> 1]\<rparr>) =
     ([ReceiveHttp (HttpEvent 1 (ResponseProtocolError ''stream reset by client (77)'' 502))],
      (ready_connection [(4, PyTrue)])\<lparr>quic_to_event := [4 \<mapsto> 1]\<rparr>, Returns ())"
    using stream_reset_reports_protocol_error
      [of "(ready_connection [(4, H3Stream (new_stream 4))])\<lparr>quic_to_event := [4 \<mapsto> 1]\<rparr>"
          4 "new_stream 4" Client 1 sample_env 0 77, OF _ c _ e]
    by (simp add: ready_connection_def sample_env_def H3_REQUEST_CANCELLED_def
        bytes_of_int_def)
  show ?thesis using c s1 s2 by simp
qed

subsection \<open>What a codec call leaves in the buffer\<close>

lemma run_quic_call_fields:
  "pending_commands (run_quic_call a s) = pending_commands s @ [quic_call_command a]"
  "stream_tab (run_quic_call a s) = stream_tab s"
  "h3_conn (run_quic_call a s) = h3_conn s"
  "handle_event (run_quic_call a s) = handle_event s"
  "event_to_quic (run_quic_call a s) = event_to_quic s"
  "quic_to_event (run_quic_call a s) = quic_to_event s"
  by (cases a; simp add: quic_close_def quic_send_stream_data_def set_connection_error_def
      Let_def)+

lemma pending_run_quic_calls:
  "pending_commands (run_quic_calls calls s) = pending_commands s @ map quic_call_command calls"
  by (induction calls arbitrary: s) (simp_all add: run_quic_call_fields)

lemma stream_tab_run_quic_calls: "stream_tab (run_quic_calls calls s) = stream_tab s"
  by (induction calls arbitrary: s) (simp_all add: run_quic_call_fields)

lemma h3_conn_run_quic_calls: "h3_conn (run_quic_calls calls s) = h3_conn s"
  by (induction calls arbitrary: s) (simp_all add: run_quic_call_fields)

lemma handle_event_run_quic_calls: "handle_event (run_quic_calls calls s) = handle_event s"
  by (induction calls arbitrary: s) (simp_all add: run_quic_call_fields)

lemma event_to_quic_run_quic_calls: "event_to_quic (run_quic_calls calls s) = event_to_quic s"
  by (induction calls arbitrary: s) (simp_all add: run_quic_call_fields)

lemma quic_to_event_run_quic_calls: "quic_to_event (run_quic_calls calls s) = quic_to_event s"
  by (induction calls arbitrary: s) (simp_all add: run_quic_call_fields)

lemmas run_quic_calls_fields =
  pending_run_quic_calls stream_tab_run_quic_calls h3_conn_run_quic_calls
  handle_event_run_quic_calls event_to_quic_run_quic_calls quic_to_event_run_quic_calls

subsection \<open>Protocol errors sent by the server role\<close>




subsection \<open>Intents that the codec rejects\<close>

lemma logs_are_neither_instructions_nor_reports:
  "list_all is_log out \<Longrightarrow> filter is_instruction out = [] \<and> filter is_report out = []"
proof (induction out)
  case Nil
  then show ?case by simp
next
  case (Cons c out)
  then show ?case by (cases c) simp_all
qed

text \<open>
  C7. An outgoing Data, Headers, Trailers or EndOfMessage intent whose codec call raises
  \<^verbatim>\<open>H3FrameUnexpected\<close> (the stream is past the state where the frame is legal): the
  handler emits no instruction and no report and returns normally, still in the same
  state. \<open>tid\<close> is the transport stream the intent targets: the intent's id for the server,
  the id mapped to it for the client. The header formatters of the HTTP/2 layer may log.
\<close>

theorem rejected_intent_is_swallowed:
  assumes ready: "h3_conn s = Some c"
    and target: "r = Server \<and> tid = stream_id ev \<or>
                 r = Client \<and> event_to_quic s (stream_id ev) = Some tid"
    and kind: "\<not> is_protocol_error (payload ev)"
    and rejected: "intent_codec_call env (set_stream_id tid ev) (stream_tab s, c) =
                     ((tab', c'), calls, Some FrameUnexpected)"
    and logs_rq: "list_all is_log (fst (format_h2_request_headers env (set_stream_id tid ev)))"
    and logs_rs: "list_all is_log (fst (format_h2_response_headers env (set_stream_id tid ev)))"
  shows "case state_ready r env reply (Http ev) s of
           (out, s', res) \<Rightarrow>
             filter is_instruction out = [] \<and> filter is_report out = [] \<and>
             res = Returns () \<and> handle_event s' = handle_event s \<and>
             event_to_quic s' = event_to_quic s \<and> quic_to_event s' = quic_to_event s"
proof -
  let ?ev = "set_stream_id tid ev"
  have pre: "preprocess_incoming_event r reply ev s = ([], s, Returns ?ev)"
    using target by (cases ev) (auto simp: preprocess_incoming_event_def set_stream_id_def)
  have sid: "stream_id ?ev = tid" and pl: "payload ?ev = payload ev"
    by (simp_all add: set_stream_id_def)
  obtain out1 s1 where body: "send_http_event r env ?ev s = (out1, s1, Raises FrameUnexpected)"
    and out1: "list_all is_log out1"
    and keep: "handle_event s1 = handle_event s" "event_to_quic s1 = event_to_quic s"
      "quic_to_event s1 = quic_to_event s"
  proof (cases "payload ev")
    case (RequestHeaders rq es)
    then show ?thesis
      using that ready rejected logs_rq pl sid
      by (simp add: send_http_event_def intent_codec_call_def send_headers_event_def
          gen_bind_def send_headers_def run_quic_calls_fields)
  next
    case (ResponseHeaders rs es)
    then show ?thesis
      using that ready rejected logs_rs pl sid
      by (simp add: send_http_event_def intent_codec_call_def send_headers_event_def
          gen_bind_def send_headers_def run_quic_calls_fields)
  next
    case (RequestData d)
    then show ?thesis
      using that ready rejected pl sid
      by (simp add: send_http_event_def intent_codec_call_def send_data_def
          run_quic_calls_fields)
  next
    case (ResponseData d)
    then show ?thesis
      using that ready rejected pl sid
      by (simp add: send_http_event_def intent_codec_call_def send_data_def
          run_quic_calls_fields)
  next
    case (RequestTrailers t)
    then show ?thesis
      using that ready rejected pl sid
      by (simp add: send_http_event_def intent_codec_call_def send_headers_def
          run_quic_calls_fields)
  next
    case (ResponseTrailers t)
    then show ?thesis
      using that ready rejected pl sid
      by (simp add: send_http_event_def intent_codec_call_def send_headers_def
          run_quic_calls_fields)
  next
    case RequestEndOfMessage
    then show ?thesis
      using that ready rejected pl sid
      by (simp add: send_http_event_def intent_codec_call_def send_data_def
          run_quic_calls_fields)
  next
    case ResponseEndOfMessage
    then show ?thesis
      using that ready rejected pl sid
      by (simp add: send_http_event_def intent_codec_call_def send_data_def
          run_quic_calls_fields)
  next
    case (RequestProtocolError m code)
    then show ?thesis using kind by simp
  next
    case (ResponseProtocolError m code)
    then show ?thesis using kind by simp
  qed
  have "state_ready r env reply (Http ev) s = (out1, s1, Returns ())"
    using ready by (simp add: state_ready_def http_event_branch_def gen_bind_def pre try_send_def body)
  then show ?thesis
    using logs_are_neither_instructions_nor_reports [OF out1] keep by simp
qed

theorem rejected_intent_is_swallowed_witness:
  "case state_ready Server sample_env 0 (Http (HttpEvent 0 (ResponseData ''late'')))
          (ready_connection
             [(0, H3Stream ((new_stream 0)\<lparr>headers_send_state := AFTER_TRAILERS\<rparr>))]) of
     (out, s', res) \<Rightarrow>
       out = [] \<and> res = Returns () \<and> handle_event s' = StateReady \<and>
       pending_commands s' = [] \<and>
       stream_tab s' =
         [(0, H3Stream ((new_stream 0)\<lparr>headers_send_state := AFTER_TRAILERS\<rparr>))]"
proof -
  let ?s = "ready_connection
              [(0, H3Stream ((new_stream 0)\<lparr>headers_send_state := AFTER_TRAILERS\<rparr>))]"
  let ?ev = "HttpEvent 0 (ResponseData ''late'')"
  have ready: "h3_conn ?s = Some ()"
    by (simp add: ready_connection_def)
  have target: "Server = Server \<and> (0::int) = stream_id ?ev \<or>
                Server = Client \<and> event_to_quic ?s (stream_id ?ev) = Some 0"
    by simp
  have kind: "\<not> is_protocol_error (payload ?ev)"
    by simp
  have rejected: "intent_codec_call sample_env (set_stream_id 0 ?ev) (stream_tab ?s, ()) =
      (([(0, H3Stream ((new_stream 0)\<lparr>headers_send_state := AFTER_TRAILERS\<rparr>))], ()), [],
       Some FrameUnexpected)"
    by code_simp
  have l1: "list_all is_log (fst (format_h2_request_headers sample_env (set_stream_id 0 ?ev)))"
    by (simp add: sample_env_def)
  have l2: "list_all is_log (fst (format_h2_response_headers sample_env (set_stream_id 0 ?ev)))"
    by (simp add: sample_env_def)
  have general: "case state_ready Server sample_env 0 (Http ?ev) ?s of
          (out, s', res) \<Rightarrow>
            filter is_instruction out = [] \<and> filter is_report out = [] \<and>
            res = Returns () \<and> handle_event s' = handle_event ?s \<and>
            event_to_quic s' = event_to_quic ?s \<and> quic_to_event s' = quic_to_event ?s"
    by (rule rejected_intent_is_swallowed [OF ready target kind rejected l1 l2])
  have run: "case state_ready Server sample_env 0 (Http ?ev) ?s of
          (out, s', res) \<Rightarrow>
            out = [] \<and> pending_commands s' = [] \<and>
            stream_tab s' =
              [(0, H3Stream ((new_stream 0)\<lparr>headers_send_state := AFTER_TRAILERS\<rparr>))]"
    by code_simp
  show ?thesis
    using general run by (auto simp: ready_connection_def split: prod.splits)
qed

subsection \<open>Incoming header blocks\<close>



subsection \<open>The id maps of the client\<close>

text \<open>Only \<^verbatim>\<open>preprocess_incoming_event\<close> writes the two dictionaries.\<close>

lemma id_maps_run_quic_calls: "id_maps (run_quic_calls calls s) = id_maps s"
  by (simp add: id_maps_def run_quic_calls_fields)

lemma gen_bind_id_maps:
  assumes m: "\<And>s out s' x. m s = (out, s', x) \<Longrightarrow> id_maps s' = id_maps s"
    and f: "\<And>x s out s' y. f x s = (out, s', y) \<Longrightarrow> id_maps s' = id_maps s"
    and run: "gen_bind m f s = (out, s', r)"
  shows "id_maps s' = id_maps s"
proof -
  obtain o1 s1 r1 where m1: "m s = (o1, s1, r1)"
    by (metis prod_cases3)
  show ?thesis
  proof (cases r1)
    case (Returns x)
    obtain o2 s2 r2 where f2: "f x s1 = (o2, s2, r2)"
      by (metis prod_cases3)
    have "s' = s2"
      using run m1 Returns f2 by (simp add: gen_bind_def)
    then show ?thesis
      using m [OF m1] f [OF f2] by simp
  next
    case (Raises e)
    then show ?thesis
      using run m1 m [OF m1] by (simp add: gen_bind_def)
  next
    case Blocks
    then show ?thesis
      using run m1 m [OF m1] by (simp add: gen_bind_def)
  qed
qed

lemma send_data_id_maps:
  "send_data env sid d e s = (out, s', r) \<Longrightarrow> id_maps s' = id_maps s"
  by (auto simp: send_data_def id_maps_def run_quic_calls_fields
      split: option.splits prod.splits)

lemma send_headers_id_maps:
  "send_headers env sid h e s = (out, s', r) \<Longrightarrow> id_maps s' = id_maps s"
  by (auto simp: send_headers_def id_maps_def run_quic_calls_fields
      split: option.splits prod.splits)

lemma h3_handle_id_maps:
  "h3_handle env sid d e s = (out, s', r) \<Longrightarrow> id_maps s' = id_maps s"
  by (auto simp: h3_handle_def id_maps_def run_quic_calls_fields
      split: option.splits prod.splits)

lemma transmit_id_maps: "transmit s = (out, s', r) \<Longrightarrow> id_maps s' = id_maps s"
  by (auto simp: transmit_def id_maps_def split: prod.splits)

lemma force_after_trailers_id_maps:
  "force_after_trailers sid s = (out, s', r) \<Longrightarrow> id_maps s' = id_maps s"
  by (auto simp: force_after_trailers_def id_maps_def split: option.splits slot.splits)

lemma gen_return_id_maps: "gen_return x s = (out, s', r) \<Longrightarrow> id_maps s' = id_maps s"
  by (simp add: gen_return_def)

lemma gen_yield_id_maps: "gen_yield c s = (out, s', r) \<Longrightarrow> id_maps s' = id_maps s"
  by (simp add: gen_yield_def)

lemma receive_http_id_maps:
  "receive_http ro ev s = (out, s', r) \<Longrightarrow> id_maps s' = id_maps s"
  by (auto simp: receive_http_def split: outcome.splits)

lemma send_headers_event_id_maps:
  assumes "send_headers_event env sid formatted e s = (out, s', r)"
  shows "id_maps s' = id_maps s"
proof -
  have tail: "\<And>x s out s' y.
      gen_bind (send_headers env sid (snd formatted) e)
        (\<lambda>_. if e then force_after_trailers sid else gen_return ()) s = (out, s', y) \<Longrightarrow>
      id_maps s' = id_maps s"
    by (erule gen_bind_id_maps [rotated 2])
      (auto dest: send_headers_id_maps force_after_trailers_id_maps gen_return_id_maps
        split: if_splits)
  show ?thesis
    using assms unfolding send_headers_event_def
    by (rule gen_bind_id_maps [rotated 2]) (auto dest: tail)
qed

lemma server_send_protocol_error_id_maps:
  assumes "server_send_protocol_error env ev s = (out, s', r)"
  shows "id_maps s' = id_maps s"
proof (cases "h3_conn s")
  case None
  then show ?thesis
    using assms by (simp add: server_send_protocol_error_def)
next
  case (Some c)
  show ?thesis
  proof (cases "payload ev")
    case (ResponseProtocolError m code0)
    then have "gen_bind
        (send_headers env (stream_id ev)
           [('':status'',
             bytes_of_int
               (if code0 \<noteq> CLIENT_CLOSED_REQUEST then INTERNAL_SERVER_ERROR else code0)),
            (''server'', MITMPROXY env), (''content-type'', ''text/html'')] False)
        (\<lambda>_. send_data env (stream_id ev)
               (format_error env
                  (if code0 \<noteq> CLIENT_CLOSED_REQUEST then INTERNAL_SERVER_ERROR else code0) m)
               True) s = (out, s', r)"
      using assms Some by (simp add: server_send_protocol_error_def Let_def)
    then show ?thesis
      by (rule gen_bind_id_maps [rotated 2])
        (auto dest: send_headers_id_maps send_data_id_maps)
  qed (use assms Some in \<open>simp_all add: server_send_protocol_error_def\<close>)
qed

lemma send_http_event_id_maps:
  assumes "send_http_event ro env ev s = (out, s', r)"
  shows "id_maps s' = id_maps s"
  using assms
  by (cases "payload ev"; cases ro)
    (auto simp: send_http_event_def send_protocol_error_def
      dest: send_data_id_maps send_headers_id_maps send_headers_event_id_maps
        server_send_protocol_error_id_maps gen_return_id_maps)

lemma try_send_id_maps:
  assumes body: "\<And>s out s' x. body s = (out, s', x) \<Longrightarrow> id_maps s' = id_maps s"
    and run: "try_send body s = (out, s', r)"
  shows "id_maps s' = id_maps s"
proof -
  obtain o1 s1 r1 where b: "body s = (o1, s1, r1)"
    by (metis prod_cases3)
  show ?thesis
  proof (cases r1)
    case (Returns u)
    obtain o2 s2 r2 where t: "transmit s1 = (o2, s2, r2)"
      by (metis prod_cases3)
    have "s' = s2"
      using run b Returns t by (simp add: try_send_def)
    then show ?thesis
      using body [OF b] transmit_id_maps [OF t] by simp
  next
    case (Raises e)
    then show ?thesis
      using run b body [OF b] by (auto simp: try_send_def split: if_splits)
  next
    case Blocks
    then show ?thesis
      using run b body [OF b] by (simp add: try_send_def)
  qed
qed

lemma stream_reset_branch_id_maps:
  "stream_reset_branch ro env sid ec s = (out, s', r) \<Longrightarrow> id_maps s' = id_maps s"
  by (auto simp: stream_reset_branch_def Let_def id_maps_def
      split: if_splits option.splits slot.splits dest!: receive_http_id_maps)

lemma end_of_message_if_id_maps:
  "end_of_message_if ro e sid s = (out, s', r) \<Longrightarrow> id_maps s' = id_maps s"
  by (auto simp: end_of_message_if_def
      dest: receive_http_id_maps gen_return_id_maps split: if_splits)

lemma ignore_h3_event_id_maps:
  "ignore_h3_event e s = (out, s', r) \<Longrightarrow> id_maps s' = id_maps s"
  by (simp add: ignore_h3_event_def gen_yield_def)

lemma headers_received_id_maps:
  "headers_received ro env h sid e s = (out, s', r) \<Longrightarrow> id_maps s' = id_maps s"
  by (auto simp: headers_received_def gen_yield_def set_connection_error_def id_maps_def
      split: option.splits slot.splits if_splits sum.splits dest!: receive_http_id_maps)

lemma process_h3_event_id_maps:
  assumes "process_h3_event ro env e s = (out, s', r)"
  shows "id_maps s' = id_maps s"
proof -
  have data: "\<And>d sid en s out s' y.
      gen_bind (receive_http ro (HttpEvent sid (ReceiveData ro d)))
        (\<lambda>_. end_of_message_if ro en sid) s = (out, s', y) \<Longrightarrow> id_maps s' = id_maps s"
    by (erule gen_bind_id_maps [rotated 2])
      (auto dest: receive_http_id_maps end_of_message_if_id_maps)
  have hdrs: "\<And>h sid en s out s' y.
      gen_bind (headers_received ro env h sid en)
        (\<lambda>_. end_of_message_if ro en sid) s = (out, s', y) \<Longrightarrow> id_maps s' = id_maps s"
    by (erule gen_bind_id_maps [rotated 2])
      (auto dest: headers_received_id_maps end_of_message_if_id_maps)
  show ?thesis
    using assms unfolding process_h3_event_def
    by (rule gen_bind_id_maps [rotated 2])
      (auto dest: gen_yield_id_maps data hdrs ignore_h3_event_id_maps
        split: h3_event.splits if_splits)
qed

lemma process_h3_events_id_maps:
  "process_h3_events ro env es s = (out, s', r) \<Longrightarrow> id_maps s' = id_maps s"
proof (induction es arbitrary: s out s' r)
  case Nil
  then show ?case by (simp add: gen_return_def)
next
  case (Cons e es)
  from Cons.prems show ?case
    unfolding process_h3_events.simps
    by (rule gen_bind_id_maps [rotated 2]) (auto dest: process_h3_event_id_maps Cons.IH)
qed

lemma data_received_branch_id_maps:
  assumes "data_received_branch ro env sid d e s = (out, s', r)"
  shows "id_maps s' = id_maps s"
proof -
  have tail: "\<And>s out s' y.
      gen_bind (h3_handle env sid d e) (process_h3_events ro env) s = (out, s', y) \<Longrightarrow>
      id_maps s' = id_maps s"
    by (erule gen_bind_id_maps [rotated 2])
      (auto dest: h3_handle_id_maps process_h3_events_id_maps)
  show ?thesis
    using assms unfolding data_received_branch_def
    by (rule gen_bind_id_maps [rotated 2]) (auto dest: gen_yield_id_maps tail)
qed

lemma close_stream_id_maps:
  "close_stream ro v s = (out, s', r) \<Longrightarrow> id_maps s' = id_maps s"
  by (auto simp: close_stream_def split: slot.splits if_splits dest: receive_http_id_maps)

lemma close_streams_id_maps:
  "close_streams ro vs s = (out, s', r) \<Longrightarrow> id_maps s' = id_maps s"
proof (induction vs arbitrary: s out s' r)
  case Nil
  then show ?case by (simp add: gen_return_def)
next
  case (Cons v vs)
  from Cons.prems show ?case
    unfolding close_streams.simps
    by (rule gen_bind_id_maps [rotated 2]) (auto dest: close_stream_id_maps Cons.IH)
qed

lemma connection_closed_branch_id_maps:
  assumes "connection_closed_branch ro s = (out, s', r)"
  shows "id_maps s' = id_maps s"
  using assms unfolding connection_closed_branch_def
  by (rule gen_bind_id_maps [rotated 2])
    (auto dest: close_streams_id_maps simp: gen_modify_def id_maps_def)

lemma take_stream_ids_id_maps:
  "take_stream_ids us s = (s', r) \<Longrightarrow> id_maps s' = id_maps s"
proof (induction us arbitrary: s s' r)
  case Nil
  then show ?case by simp
next
  case (Cons u us)
  obtain s1 r1 where g: "get_next_available_stream_id u s = (s1, r1)"
    by (metis surj_pair)
  have s1: "id_maps s1 = id_maps s"
    using g
    by (auto simp: get_next_available_stream_id_def queue_get_def id_maps_def
        split: list.splits)
  show ?case
  proof (cases r1)
    case (Returns i)
    obtain s2 r2 where t: "take_stream_ids us s1 = (s2, r2)"
      by (metis surj_pair)
    have "s' = s2"
      using Cons.prems g Returns t by (auto split: outcome.splits)
    then show ?thesis
      using Cons.IH [OF t] s1 by simp
  next
    case (Raises e)
    then show ?thesis using Cons.prems g s1 by simp
  next
    case Blocks
    then show ?thesis using Cons.prems g s1 by simp
  qed
qed

lemma state_start_id_maps:
  assumes "state_start env r1 r2 ev s = (out, s', r)"
  shows "id_maps s' = id_maps s"
proof -
  have new: "\<And>s out s' y. new_LayeredH3Connection env s = (out, s', y) \<Longrightarrow>
      id_maps s' = id_maps s"
  proof -
    fix s :: "'a http3_connection" and out s' and y :: "unit outcome"
    assume a: "new_LayeredH3Connection env s = (out, s', y)"
    obtain s1 r1 where t: "take_stream_ids (h3_init_streams env)
        (s\<lparr>pending_commands := [], available_stream_ids := []\<rparr>) = (s1, r1)"
      by (metis surj_pair)
    have "id_maps s1 = id_maps s"
      using take_stream_ids_id_maps [OF t] by (simp add: id_maps_def)
    then show "id_maps s' = id_maps s"
      using a t
      by (auto simp: new_LayeredH3Connection_def id_maps_def run_quic_calls_fields
          split: outcome.splits prod.splits)
  qed
  have rest: "\<And>s out s' y.
      gen_bind (gen_modify (\<lambda>s'. s'\<lparr>handle_event := StateReady\<rparr>)) (\<lambda>_. start r1 r2) s =
        (out, s', y) \<Longrightarrow> id_maps s' = id_maps s"
    by (auto simp: gen_bind_def gen_modify_def start_def id_maps_def)
  show ?thesis
  proof (cases "ev = Start \<and> h3_conn s = None")
    case True
    then have "gen_bind (new_LayeredH3Connection env)
        (\<lambda>_. gen_bind (gen_modify (\<lambda>s'. s'\<lparr>handle_event := StateReady\<rparr>))
               (\<lambda>_. start r1 r2)) s = (out, s', r)"
      using assms by (simp add: state_start_def)
    then show ?thesis
      by (rule gen_bind_id_maps [rotated 2]) (auto dest: new rest)
  next
    case False
    then show ?thesis
      using assms by (auto simp: state_start_def split: event.splits if_splits)
  qed
qed

lemma maps_inverse_update:
  assumes "maps_inverse s" and "event_to_quic s l = None" and "quic_to_event s t = None"
  shows "maps_inverse
           (s\<lparr>event_to_quic := (event_to_quic s)(l \<mapsto> t),
              quic_to_event := (quic_to_event s)(t \<mapsto> l)\<rparr>)"
  using assms unfolding maps_inverse_def by (auto; metis option.distinct(1))

text \<open>
  C9. On a client-side connection the two id maps are inverse to each other after every
  handled event, whatever the event and however the handler stops; entries are only
  added, so a mapped id keeps its partner; and a report whose transport id has no
  reverse mapping is not rewritten silently: \<^verbatim>\<open>postprocess_outgoing_event\<close> raises
  \<^verbatim>\<open>KeyError\<close>. The transport answers \<^verbatim>\<open>OpenQuicStream\<close> with a stream id that is not
  mapped yet.
\<close>

theorem client_id_maps_stay_inverse:
  assumes inv: "maps_inverse s"
    and fresh: "quic_to_event s (fst replies) = None"
    and step: "handle Client env replies ev s = (out, s', res)"
  shows "maps_inverse s' \<and>
         event_to_quic s \<subseteq>\<^sub>m event_to_quic s' \<and>
         quic_to_event s \<subseteq>\<^sub>m quic_to_event s' \<and>
         (\<forall>e. quic_to_event s' (stream_id e) = None \<longrightarrow>
              receive_http Client e s' = ([], s', Raises KeyError))"
proof -
  have loud: "\<forall>e. quic_to_event s' (stream_id e) = None \<longrightarrow>
      receive_http Client e s' = ([], s', Raises KeyError)"
    by (simp add: receive_http_def postprocess_outgoing_event_def)
  have same: "id_maps s' = id_maps s \<Longrightarrow> ?thesis"
    using inv loud by (simp add: id_maps_def maps_inverse_def)
  show ?thesis
  proof (cases "handle_event s")
    case StateStart
    then show ?thesis
      using step same by (auto simp: handle_def dest: state_start_id_maps)
  next
    case StateDone
    then show ?thesis
      using step same by (auto simp: handle_def state_done_def id_maps_def split: event.splits)
  next
    case StateReady
    then have ready: "state_ready Client env (fst replies) ev s = (out, s', res)"
      using step by (simp add: handle_def)
    show ?thesis
    proof (cases ev)
      case Start
      then show ?thesis using ready same by (simp add: state_ready_def)
    next
      case (QuicStreamDataReceived sid d e)
      then show ?thesis
        using ready same
        by (auto simp: state_ready_def split: if_splits dest: data_received_branch_id_maps)
    next
      case (QuicStreamReset sid ec)
      then show ?thesis
        using ready same
        by (auto simp: state_ready_def split: if_splits dest: stream_reset_branch_id_maps)
    next
      case ConnectionClosed
      then show ?thesis
        using ready same
        by (auto simp: state_ready_def split: if_splits dest: connection_closed_branch_id_maps)
    next
      case (Http e)
      show ?thesis
      proof (cases "h3_conn s = None")
        case True
        then show ?thesis using ready same Http by (simp add: state_ready_def)
      next
        case False
        obtain o1 s1 e1 where pre:
          "preprocess_incoming_event Client (fst replies) e s = (o1, s1, Returns e1)"
          by (cases "event_to_quic s (stream_id e)")
            (auto simp: preprocess_incoming_event_def)
        obtain o2 s2 r2 where body: "try_send (send_http_event Client env e1) s1 = (o2, s2, r2)"
          by (metis prod_cases3)
        have s2: "s' = s2"
          using ready Http False pre body
          by (simp add: state_ready_def http_event_branch_def gen_bind_def)
        have keep: "id_maps s2 = id_maps s1"
          using body by (rule try_send_id_maps [rotated]) (rule send_http_event_id_maps)
        have s1: "maps_inverse s1 \<and> event_to_quic s \<subseteq>\<^sub>m event_to_quic s1 \<and>
                  quic_to_event s \<subseteq>\<^sub>m quic_to_event s1"
        proof (cases "event_to_quic s (stream_id e)")
          case (Some q)
          then have "s1 = s"
            using pre by (simp add: preprocess_incoming_event_def)
          then show ?thesis using inv by simp
        next
          case None
          then have upd: "s1 = s\<lparr>event_to_quic := (event_to_quic s)(stream_id e \<mapsto> fst replies),
                                 quic_to_event := (quic_to_event s)(fst replies \<mapsto> stream_id e)\<rparr>"
            using pre by (simp add: preprocess_incoming_event_def)
          show ?thesis
            unfolding upd
            using maps_inverse_update [OF inv None fresh] None fresh
            by (auto simp: map_le_def)
        qed
        show ?thesis
          using s1 keep loud unfolding s2 by (simp add: id_maps_def maps_inverse_def)
      qed
    qed
  qed
qed

theorem client_id_maps_stay_inverse_witness:
  "case handle Client sample_env (0, 0) (Http (HttpEvent 1 (RequestData ''x'')))
          (ready_connection []) of
     (out, s', res) \<Rightarrow>
       maps_inverse s' \<and> event_to_quic s' 1 = Some 0 \<and> quic_to_event s' 0 = Some 1 \<and>
       out = [OpenQuicStream False] \<and>
       snd (snd (receive_http Client (HttpEvent 4 ResponseEndOfMessage) s')) = Raises KeyError"
proof -
  let ?s = "ready_connection [] :: unit http3_connection"
  have inv: "maps_inverse ?s"
    by (simp add: maps_inverse_def ready_connection_def)
  have fresh: "quic_to_event ?s (fst (0::int, 0::int)) = None"
    by (simp add: ready_connection_def)
  obtain out s' res where step:
    "handle Client sample_env (0, 0) (Http (HttpEvent 1 (RequestData ''x''))) ?s = (out, s', res)"
    by (metis prod_cases3)
  have general: "maps_inverse s' \<and>
         event_to_quic ?s \<subseteq>\<^sub>m event_to_quic s' \<and>
         quic_to_event ?s \<subseteq>\<^sub>m quic_to_event s' \<and>
         (\<forall>e. quic_to_event s' (stream_id e) = None \<longrightarrow>
              receive_http Client e s' = ([], s', Raises KeyError))"
    by (rule client_id_maps_stay_inverse [OF inv fresh step])
  have run: "case handle Client sample_env (0, 0) (Http (HttpEvent 1 (RequestData ''x''))) ?s of
      (out, s', res) \<Rightarrow>
        event_to_quic s' 1 = Some 0 \<and> quic_to_event s' 0 = Some 1 \<and>
        quic_to_event s' 4 = None \<and> out = [OpenQuicStream False]"
    by code_simp
  show ?thesis
    using general run unfolding step by auto
qed

end
